theory Spec2Isabelle
  imports Main "HOL-Library.Sublist" "HOL-Library.Char_ord" "HOL-Library.List_Lexorder"
begin

section \<open>The data model of \<^verbatim>\<open>streamlit_app.py\<close>\<close>

text \<open>
  The dashboard reads one JSON document and looks every field up with
  \<^verbatim>\<open>dict.get(key, default)\<close>. A dictionary of the document is a record whose fields are
  options: \<open>None\<close> is an absent key, \<open>Some v\<close> a key holding \<open>v\<close>. A present key holds a
  value of the type the data model of the document gives it (a string, an integer, a
  sequence of strings, a sequence of evidence items); Python's integers are \<open>int\<close>.
  Strings are lists of \<open>char\<close>, read as ASCII code points.
\<close>

record evidence =
  date :: "string option"
  quote :: "string option"
  tweet_url :: "string option"

record profile =
  username :: "string option"
  full_name :: "string option"
  roles :: "string list option"
  company :: "string option"
  company_size :: "string option"
  profile_url :: "string option"
  evidence_count :: "int option"
  first_evidence_date :: "string option"
  latest_evidence_date :: "string option"
  evidence :: "evidence list option"

record document =
  profiles :: "profile list option"

text \<open>\<^verbatim>\<open>d.get(key, default)\<close>, the looked-up key given as an option.\<close>

definition dict_get :: "'a option \<Rightarrow> 'a \<Rightarrow> 'a" where
  "dict_get v d = (case v of None \<Rightarrow> d | Some x \<Rightarrow> x)"

text \<open>The empty dictionary \<^verbatim>\<open>{}\<close> as a profile and as an evidence item.\<close>

definition empty_profile :: profile where
  "empty_profile = \<lparr>username = None, full_name = None, roles = None, company = None,
     company_size = None, profile_url = None, evidence_count = None,
     first_evidence_date = None, latest_evidence_date = None, evidence = None\<rparr>"


section \<open>Python strings\<close>

text \<open>\<^verbatim>\<open>sep.join(xs)\<close>.\<close>

fun str_join :: "string \<Rightarrow> string list \<Rightarrow> string" where
  "str_join sep [] = []"
| "str_join sep [x] = x"
| "str_join sep (x # y # ys) = x @ sep @ str_join sep (y # ys)"

text \<open>\<^verbatim>\<open>str.lower()\<close> on ASCII: the letters A to Z go to a to z, every other character stays.\<close>

definition lower_char :: "char \<Rightarrow> char" where
  "lower_char c =
     (case map_of (zip ''ABCDEFGHIJKLMNOPQRSTUVWXYZ'' ''abcdefghijklmnopqrstuvwxyz'') c of
        None \<Rightarrow> c
      | Some l \<Rightarrow> l)"

definition lower :: "string \<Rightarrow> string" where
  "lower s = map lower_char s"

section \<open>The row projector: \<^verbatim>\<open>extract_dataframe\<close> (lines 68 to 86)\<close>

text \<open>
  A flat row is the dictionary the loop body builds. Its keys are \<^verbatim>\<open>username\<close>,
  \<^verbatim>\<open>full_name\<close>, \<^verbatim>\<open>roles\<close>, \<^verbatim>\<open>company\<close>, \<^verbatim>\<open>company_size\<close>, \<^verbatim>\<open>evidence_count\<close>,
  \<^verbatim>\<open>first_date\<close> and \<^verbatim>\<open>latest_date\<close>; the fields carry the prefix \<open>r_\<close> to keep them
  apart from the fields of a profile.
\<close>

record row =
  r_username :: string
  r_full_name :: string
  r_roles :: string
  r_company :: string
  r_company_size :: string
  r_evidence_count :: int
  r_first_date :: string
  r_latest_date :: string

definition project_row :: "profile \<Rightarrow> row" where
  "project_row p =
     \<lparr>r_username = dict_get (username p) '''',
      r_full_name = dict_get (full_name p) '''',
      r_roles = str_join '', '' (dict_get (roles p) []),
      r_company = dict_get (company p) '''',
      r_company_size = dict_get (company_size p) '''',
      r_evidence_count = dict_get (evidence_count p) 0,
      r_first_date = dict_get (first_evidence_date p) '''',
      r_latest_date = dict_get (latest_evidence_date p) ''''\<rparr>"

text \<open>The loop \<^verbatim>\<open>for profile in profiles: ... rows.append(row)\<close>, with \<open>acc\<close> the list built so far.\<close>

fun append_rows :: "profile list \<Rightarrow> row list \<Rightarrow> row list" where
  "append_rows [] acc = acc"
| "append_rows (p # ps) acc = append_rows ps (acc @ [project_row p])"

text \<open>
  A pandas \<^verbatim>\<open>DataFrame\<close>: its column labels and its rows. \<^verbatim>\<open>pd.DataFrame(rows)\<close> takes the
  columns from the keys of the dictionaries, so the frame built from the empty list has no
  column at all.
\<close>

record dataframe =
  columns :: "string list"
  rows :: "row list"

definition row_keys :: "string list" where
  "row_keys = [''username'', ''full_name'', ''roles'', ''company'', ''company_size'',
     ''evidence_count'', ''first_date'', ''latest_date'']"

definition DataFrame :: "row list \<Rightarrow> dataframe" where
  "DataFrame rs = \<lparr>columns = (if rs = [] then [] else row_keys), rows = rs\<rparr>"

definition extract_dataframe :: "document \<Rightarrow> dataframe" where
  "extract_dataframe data =
     (let ps = dict_get (profiles data) [] in DataFrame (append_rows ps []))"

section \<open>Errors\<close>

text \<open>
  The exceptions the filter code can raise: \<^verbatim>\<open>KeyError\<close> with the missing column label,
  and \<^verbatim>\<open>re.error\<close> for a search text that is no regular expression. A computation that
  may raise returns \<open>error + 'a\<close>; \<open>and_then\<close> runs the next statement unless one was raised.
\<close>

datatype error = KeyError string | ReError

definition and_then :: "error + 'a \<Rightarrow> ('a \<Rightarrow> error + 'b) \<Rightarrow> error + 'b" where
  "and_then m f = (case m of Inl e \<Rightarrow> Inl e | Inr x \<Rightarrow> f x)"

section \<open>pandas: column access, boolean indexing, \<^verbatim>\<open>str.contains\<close>\<close>

text \<open>\<^verbatim>\<open>df[label]\<close>: the values of column \<open>label\<close>, read from each row by \<open>field\<close>.\<close>

definition column :: "dataframe \<Rightarrow> string \<Rightarrow> (row \<Rightarrow> 'a) \<Rightarrow> error + 'a list" where
  "column df label field =
     (if label \<in> set (columns df) then Inr (map field (rows df)) else Inl (KeyError label))"

text \<open>\<^verbatim>\<open>df[mask]\<close>: the rows whose entry of the mask is true, under the same columns.\<close>

definition bool_index :: "dataframe \<Rightarrow> bool list \<Rightarrow> dataframe" where
  "bool_index df keep = df\<lparr>rows := map fst (filter snd (zip (rows df) keep))\<rparr>"

text \<open>
  \<^verbatim>\<open>Series.str.contains(pat, case=False, na=False)\<close> leaves \<^verbatim>\<open>regex\<close> at its default
  \<^verbatim>\<open>True\<close>: pandas compiles \<open>pat\<close> once with \<^verbatim>\<open>re.compile(pat, re.IGNORECASE)\<close> and keeps
  \<^verbatim>\<open>pattern.search(x) is not None\<close> for every value \<open>x\<close>.

  Of Python's regular expressions this development interprets the patterns made of
  ordinary characters and of the wildcard \<^verbatim>\<open>.\<close> (any character but a newline). The
  characters \<^verbatim>\<open>. ^ $ * + ? { } [ ] \ | ( )\<close> are the special ones. What \<^verbatim>\<open>re.compile\<close> does
  with a pattern that uses another special character is the parameter \<open>other\<close>: \<open>None\<close> when
  it raises \<^verbatim>\<open>re.error\<close>, \<open>Some f\<close> when it compiles to a pattern that finds a match in
  exactly the strings \<open>f\<close> accepts.
\<close>

type_synonym regex_engine = "string \<Rightarrow> (string \<Rightarrow> bool) option"

definition re_special :: "char \<Rightarrow> bool" where
  "re_special c = (c \<in> set (''.^$*+?{}[]|()'' @ [CHR 0x5C]))"

datatype atom = Lit char | AnyChar

fun atom_matches :: "atom \<Rightarrow> char \<Rightarrow> bool" where
  "atom_matches (Lit p) c = (lower_char p = lower_char c)"
| "atom_matches AnyChar c = (c \<noteq> CHR 0x0A)"

text \<open>The atoms match a prefix of the string.\<close>

fun match_here :: "atom list \<Rightarrow> string \<Rightarrow> bool" where
  "match_here [] s = True"
| "match_here (a # as) [] = False"
| "match_here (a # as) (c # cs) = (atom_matches a c \<and> match_here as cs)"

text \<open>\<^verbatim>\<open>pattern.search\<close>: a match starting at some position of the string.\<close>

fun re_search :: "atom list \<Rightarrow> string \<Rightarrow> bool" where
  "re_search as [] = match_here as []"
| "re_search as (c # cs) = (match_here as (c # cs) \<or> re_search as cs)"

definition parse_atom :: "char \<Rightarrow> atom" where
  "parse_atom c = (if c = CHR ''.'' then AnyChar else Lit c)"

definition re_compile :: "regex_engine \<Rightarrow> string \<Rightarrow> (string \<Rightarrow> bool) option" where
  "re_compile other pat =
     (if \<forall>c \<in> set pat. c = CHR ''.'' \<or> \<not> re_special c
      then Some (re_search (map parse_atom pat))
      else other pat)"

definition str_contains :: "regex_engine \<Rightarrow> string \<Rightarrow> string list \<Rightarrow> error + bool list" where
  "str_contains other pat xs =
     (case re_compile other pat of None \<Rightarrow> Inl ReError | Some f \<Rightarrow> Inr (map f xs))"

text \<open>An engine that raises \<^verbatim>\<open>re.error\<close> on every pattern left to it.\<close>

definition no_engine :: regex_engine where
  "no_engine pat = None"

section \<open>The filter engine: lines 117 to 129 of \<^verbatim>\<open>main\<close>\<close>

text \<open>
  The three statements that narrow \<^verbatim>\<open>filtered_df\<close>, each a function of the frame before
  it. \<^verbatim>\<open>if search_query:\<close> is true of a non-empty string; the two masks are computed left
  to right and joined with \<^verbatim>\<open>|\<close>.
\<close>

definition search_filter :: "regex_engine \<Rightarrow> string \<Rightarrow> dataframe \<Rightarrow> error + dataframe" where
  "search_filter other search_query filtered_df =
     (if search_query \<noteq> [] then
        and_then (column filtered_df ''username'' r_username) (\<lambda>us.
        and_then (str_contains other search_query us) (\<lambda>m1.
        and_then (column filtered_df ''full_name'' r_full_name) (\<lambda>fs.
        and_then (str_contains other search_query fs) (\<lambda>m2.
          Inr (bool_index filtered_df (map2 (\<or>) m1 m2))))))
      else Inr filtered_df)"

definition evidence_filter :: "int \<Rightarrow> dataframe \<Rightarrow> error + dataframe" where
  "evidence_filter min_evidence filtered_df =
     and_then (column filtered_df ''evidence_count'' r_evidence_count) (\<lambda>cs.
       Inr (bool_index filtered_df (map (\<lambda>c. c \<ge> min_evidence) cs)))"

definition size_filter :: "string \<Rightarrow> dataframe \<Rightarrow> error + dataframe" where
  "size_filter selected_size filtered_df =
     (if selected_size \<noteq> ''All'' then
        and_then (column filtered_df ''company_size'' r_company_size) (\<lambda>ss.
          Inr (bool_index filtered_df (map (\<lambda>s. s = selected_size) ss)))
      else Inr filtered_df)"

text \<open>The query: the values of the three sidebar widgets.\<close>

record query =
  search_query :: string
  min_evidence :: int
  selected_size :: string

definition apply_filters :: "regex_engine \<Rightarrow> query \<Rightarrow> dataframe \<Rightarrow> error + dataframe" where
  "apply_filters other q df =
     and_then (search_filter other (search_query q) df) (\<lambda>d1.
     and_then (evidence_filter (min_evidence q) d1) (\<lambda>d2.
       size_filter (selected_size q) d2))"

text \<open>The identity query: no search text, the slider at 0, the select box at \<^verbatim>\<open>All\<close>.\<close>

definition identity_query :: query where
  "identity_query = \<lparr>search_query = [], min_evidence = 0, selected_size = ''All''\<rparr>"

text \<open>
  \<^verbatim>\<open>x in array\<close> for a numpy array is \<^verbatim>\<open>(array == x).any()\<close>: some element equals \<open>x\<close>.
\<close>

fun np_contains :: "'a list \<Rightarrow> 'a \<Rightarrow> bool" where
  "np_contains [] x = False"
| "np_contains (v # vs) x = (v = x \<or> np_contains vs x)"

text \<open>
  Line 129: \<^verbatim>\<open>[p for p in profiles if p.get("username") in filtered_df["username"].values]\<close>.
  \<^verbatim>\<open>p.get("username")\<close> is \<open>None\<close> for a profile without the key; the values of the column
  are strings, \<open>Some v\<close>.
\<close>

definition filtered_profiles :: "profile list \<Rightarrow> dataframe \<Rightarrow> error + profile list" where
  "filtered_profiles ps filtered_df =
     and_then (column filtered_df ''username'' r_username) (\<lambda>vals.
       Inr [p \<leftarrow> ps. np_contains (map Some vals) (username p)])"

text \<open>
  Lines 95 to 129 together: the filtered frame and the filtered profiles of a document.
  Before the filters run, line 113 reads the column \<^verbatim>\<open>company_size\<close> for the options of the
  select box; the widgets then give the query \<open>q\<close>.
\<close>

definition filter_view ::
  "regex_engine \<Rightarrow> query \<Rightarrow> document \<Rightarrow> error + (dataframe \<times> profile list)" where
  "filter_view other q data =
     (let ps = dict_get (profiles data) [];
          df = extract_dataframe data
      in and_then (column df ''company_size'' r_company_size) (\<lambda>company_sizes.
         and_then (apply_filters other q df) (\<lambda>filtered_df.
         and_then (filtered_profiles ps filtered_df) (\<lambda>fps. Inr (filtered_df, fps)))))"

text \<open>
  The three narrowing statements run in another order, to state that the order does not
  matter; \<open>apply_filters\<close> runs them as the source does.
\<close>

datatype step = Search | Evidence | Size

fun apply_step :: "regex_engine \<Rightarrow> query \<Rightarrow> step \<Rightarrow> dataframe \<Rightarrow> error + dataframe" where
  "apply_step other q Search df = search_filter other (search_query q) df"
| "apply_step other q Evidence df = evidence_filter (min_evidence q) df"
| "apply_step other q Size df = size_filter (selected_size q) df"

fun apply_steps :: "regex_engine \<Rightarrow> query \<Rightarrow> step list \<Rightarrow> dataframe \<Rightarrow> error + dataframe" where
  "apply_steps other q [] df = Inr df"
| "apply_steps other q (s # ss) df = and_then (apply_step other q s df) (apply_steps other q ss)"


section \<open>The timeline aggregator: lines 224 to 238 of \<^verbatim>\<open>main\<close>\<close>


























section \<open>The sort engine: lines 264 to 272 of \<^verbatim>\<open>main\<close>\<close>

text \<open>
  \<^verbatim>\<open>list.sort(key=..., reverse=...)\<close> is a stable sort by the key. With \<^verbatim>\<open>reverse=True\<close>
  CPython reverses the list, sorts it and reverses the result, so that equal keys keep
  their order. The stable sort itself is insertion sort here.
\<close>

definition list_sort :: "('a \<Rightarrow> 'k::linorder) \<Rightarrow> bool \<Rightarrow> 'a list \<Rightarrow> 'a list" where
  "list_sort key reverse xs =
     (if reverse then rev (sort_key key (rev xs)) else sort_key key xs)"

definition sort_profiles :: "string \<Rightarrow> profile list \<Rightarrow> profile list" where
  "sort_profiles sort_option ps =
     (if sort_option = ''Evidence Count (High to Low)'' then
        list_sort (\<lambda>x. dict_get (evidence_count x) 0) True ps
      else if sort_option = ''Evidence Count (Low to High)'' then
        list_sort (\<lambda>x. dict_get (evidence_count x) 0) False ps
      else if sort_option = ''Username (A-Z)'' then
        list_sort (\<lambda>x. lower (dict_get (username x) [])) False ps
      else if sort_option = ''Latest Activity'' then
        list_sort (\<lambda>x. dict_get (latest_evidence_date x) []) True ps
      else ps)"

text \<open>A profile with the defaults written into the three fields that are sort keys.\<close>

definition with_defaults :: "profile \<Rightarrow> profile" where
  "with_defaults p =
     p\<lparr>evidence_count := Some (dict_get (evidence_count p) 0),
       username := Some (dict_get (username p) []),
       latest_evidence_date := Some (dict_get (latest_evidence_date p) [])\<rparr>"

section \<open>The loader: \<^verbatim>\<open>load_data\<close> (lines 54 to 66)\<close>






section \<open>What one narrowing statement needs and keeps\<close>

text \<open>
  Each of the three statements either raises, which depends on the columns of the frame and
  on the query only, or keeps the rows that pass its test. \<open>step_ok\<close> says that the
  statement does not raise, \<open>step_keeps\<close> is its test on a row.
\<close>

definition step_ok :: "regex_engine \<Rightarrow> query \<Rightarrow> string list \<Rightarrow> step \<Rightarrow> bool" where
  "step_ok other q cols s =
     (case s of
        Search \<Rightarrow> search_query q = [] \<or>
          (''username'' \<in> set cols \<and> ''full_name'' \<in> set cols \<and>
           re_compile other (search_query q) \<noteq> None)
      | Evidence \<Rightarrow> ''evidence_count'' \<in> set cols
      | Size \<Rightarrow> selected_size q = ''All'' \<or> ''company_size'' \<in> set cols)"

definition step_keeps :: "regex_engine \<Rightarrow> query \<Rightarrow> step \<Rightarrow> row \<Rightarrow> bool" where
  "step_keeps other q s = (\<lambda>r.
     case s of
        Search \<Rightarrow> search_query q = [] \<or>
          (case re_compile other (search_query q) of
             None \<Rightarrow> False
           | Some f \<Rightarrow> f (r_username r) \<or> f (r_full_name r))
      | Evidence \<Rightarrow> min_evidence q \<le> r_evidence_count r
      | Size \<Rightarrow> selected_size q = ''All'' \<or> r_company_size r = selected_size q)"

section \<open>Example data\<close>

text \<open>Profiles, documents and queries on which the theorems below are run.\<close>

definition alice :: profile where
  "alice = empty_profile\<lparr>username := Some ''alice_dev'', full_name := Some ''Alice Liddell'',
     roles := Some [''engineer'', ''founder''], company_size := Some ''startup'',
     evidence_count := Some 5, latest_evidence_date := Some ''2024-02-01''\<rparr>"

definition alice_twin :: profile where
  "alice_twin = alice\<lparr>full_name := Some ''Alice Again'', evidence_count := Some 1\<rparr>"

definition bob :: profile where
  "bob = empty_profile\<lparr>username := Some ''bob'', full_name := Some ''Bob Stone'',
     company_size := Some ''enterprise'', evidence_count := Some 5,
     latest_evidence_date := Some ''2024-01-20''\<rparr>"

definition nameless :: profile where
  "nameless = empty_profile\<lparr>evidence_count := Some 3\<rparr>"

definition debtor :: profile where
  "debtor = empty_profile\<lparr>evidence_count := Some (- 1)\<rparr>"


definition counted :: "string \<Rightarrow> int \<Rightarrow> profile" where
  "counted u n = empty_profile\<lparr>username := Some u, evidence_count := Some n\<rparr>"


definition example_doc :: document where
  "example_doc = \<lparr>profiles = Some [alice, bob, nameless]\<rparr>"

definition twin_doc :: document where
  "twin_doc = \<lparr>profiles = Some [alice, bob, alice_twin]\<rparr>"

definition debtor_doc :: document where
  "debtor_doc = \<lparr>profiles = Some [alice, debtor]\<rparr>"



definition startup_query :: query where
  "startup_query = \<lparr>search_query = ''al'', min_evidence = 4, selected_size = ''startup''\<rparr>"



section \<open>The row projector: one row per profile\<close>

lemma append_rows_map: "append_rows ps acc = acc @ map project_row ps"
  by (induction ps arbitrary: acc) simp_all

lemma rows_extract_dataframe:
  "rows (extract_dataframe data) = map project_row (dict_get (profiles data) [])"
  by (simp add: extract_dataframe_def DataFrame_def append_rows_map Let_def)

lemma columns_extract_dataframe:
  "columns (extract_dataframe data) = (if dict_get (profiles data) [] = [] then [] else row_keys)"
  by (simp add: extract_dataframe_def DataFrame_def append_rows_map Let_def)

lemma str_join_snoc: "str_join sep (ts @ [t]) = concat (map (\<lambda>x. x @ sep) ts) @ t"
proof (induction ts)
  case Nil
  show ?case by simp
next
  case (Cons a ts)
  then show ?case by (cases ts) simp_all
qed

text \<open>
  Claim C4. For every document, \<open>extract_dataframe\<close> makes one row per profile, in the
  order of the profiles. Row \<open>i\<close> carries the fields of profile \<open>i\<close>: a string field that
  the profile lacks is the empty string, a missing \<open>evidence_count\<close> is 0, and the roles are
  joined with a comma and a blank: every role but the last is followed by the separator, and
  no role at all gives the empty string.
\<close>

theorem project_one_row_per_profile:
  "length (rows (extract_dataframe data)) = length (dict_get (profiles data) []) \<and>
   (\<forall>i < length (dict_get (profiles data) []).
      let p = dict_get (profiles data) [] ! i; r = rows (extract_dataframe data) ! i in
        r_username r = (case username p of None \<Rightarrow> [] | Some v \<Rightarrow> v) \<and>
        r_full_name r = (case full_name p of None \<Rightarrow> [] | Some v \<Rightarrow> v) \<and>
        r_company r = (case company p of None \<Rightarrow> [] | Some v \<Rightarrow> v) \<and>
        r_company_size r = (case company_size p of None \<Rightarrow> [] | Some v \<Rightarrow> v) \<and>
        r_first_date r = (case first_evidence_date p of None \<Rightarrow> [] | Some v \<Rightarrow> v) \<and>
        r_latest_date r = (case latest_evidence_date p of None \<Rightarrow> [] | Some v \<Rightarrow> v) \<and>
        r_evidence_count r = (case evidence_count p of None \<Rightarrow> 0 | Some n \<Rightarrow> n) \<and>
        r_roles r = (case roles p of None \<Rightarrow> [] | Some ts \<Rightarrow> str_join '', '' ts)) \<and>
   str_join '', '' [] = [] \<and>
   (\<forall>ts t. str_join '', '' (ts @ [t]) = concat (map (\<lambda>x. x @ '', '') ts) @ t)"
  by (simp add: rows_extract_dataframe project_row_def dict_get_def str_join_snoc Let_def
      split: option.splits)

theorem project_one_row_per_profile_witness:
  "length (rows (extract_dataframe example_doc)) = 3 \<and>
   r_username (rows (extract_dataframe example_doc) ! 0) = ''alice_dev'' \<and>
   r_roles (rows (extract_dataframe example_doc) ! 0) = ''engineer, founder'' \<and>
   r_username (rows (extract_dataframe example_doc) ! 2) = [] \<and>
   r_full_name (rows (extract_dataframe example_doc) ! 2) = [] \<and>
   r_evidence_count (rows (extract_dataframe example_doc) ! 2) = 3 \<and>
   r_roles (rows (extract_dataframe example_doc) ! 2) = []"
proof -
  have ps: "dict_get (profiles example_doc) [] = [alice, bob, nameless]"
    by (simp add: example_doc_def dict_get_def)
  note t = project_one_row_per_profile[of example_doc, unfolded ps]
  have len: "length (rows (extract_dataframe example_doc)) = 3"
    using t by simp
  have r0: "r_username (rows (extract_dataframe example_doc) ! 0) = ''alice_dev'' \<and>
      r_roles (rows (extract_dataframe example_doc) ! 0) = ''engineer, founder''"
    using t[THEN conjunct2, THEN conjunct1, rule_format, of 0]
    by (simp add: alice_def empty_profile_def Let_def)
  have r2: "r_username (rows (extract_dataframe example_doc) ! 2) = [] \<and>
      r_full_name (rows (extract_dataframe example_doc) ! 2) = [] \<and>
      r_evidence_count (rows (extract_dataframe example_doc) ! 2) = 3 \<and>
      r_roles (rows (extract_dataframe example_doc) ! 2) = []"
    using t[THEN conjunct2, THEN conjunct1, rule_format, of 2]
    by (simp add: nameless_def empty_profile_def Let_def)
  from len r0 r2 show ?thesis by simp
qed

section \<open>The filter engine: each statement as a filter on the rows\<close>

lemma zip_mask_filter: "map fst (filter snd (zip xs (map P xs))) = filter P xs"
  by (induction xs) simp_all

lemma bool_index_map: "bool_index df (map P (rows df)) = df\<lparr>rows := filter P (rows df)\<rparr>"
  by (simp add: bool_index_def zip_mask_filter)

lemma map2_or_map:
  "map2 (\<or>) (map (f \<circ> g) xs) (map (f \<circ> h) xs) = map (\<lambda>r. f (g r) \<or> f (h r)) xs"
  by (induction xs) simp_all

lemma columns_DataFrame: "rs \<noteq> [] \<Longrightarrow> columns (DataFrame rs) = row_keys"
  by (simp add: DataFrame_def)

lemma rows_DataFrame: "rows (DataFrame rs) = rs"
  by (simp add: DataFrame_def)

lemma search_filter_eq:
  "search_filter other sq df =
     (if sq = [] then Inr df
      else if ''username'' \<notin> set (columns df) then Inl (KeyError ''username'')
      else case re_compile other sq of
             None \<Rightarrow> Inl ReError
           | Some f \<Rightarrow>
               if ''full_name'' \<notin> set (columns df) then Inl (KeyError ''full_name'')
               else Inr (df\<lparr>rows := filter (\<lambda>r. f (r_username r) \<or> f (r_full_name r)) (rows df)\<rparr>))"
  by (simp add: search_filter_def and_then_def column_def str_contains_def map2_or_map
      bool_index_map split: option.splits)

lemma evidence_filter_eq:
  "evidence_filter m df =
     (if ''evidence_count'' \<notin> set (columns df) then Inl (KeyError ''evidence_count'')
      else Inr (df\<lparr>rows := filter (\<lambda>r. m \<le> r_evidence_count r) (rows df)\<rparr>))"
proof -
  have "map (\<lambda>c. m \<le> c) (map r_evidence_count (rows df)) =
      map (\<lambda>r. m \<le> r_evidence_count r) (rows df)"
    by simp
  then show ?thesis
    by (simp add: evidence_filter_def and_then_def column_def bool_index_map del: map_map)
qed

lemma size_filter_eq:
  "size_filter sz df =
     (if sz = ''All'' then Inr df
      else if ''company_size'' \<notin> set (columns df) then Inl (KeyError ''company_size'')
      else Inr (df\<lparr>rows := filter (\<lambda>r. r_company_size r = sz) (rows df)\<rparr>))"
proof -
  have "map (\<lambda>s. s = sz) (map r_company_size (rows df)) =
      map (\<lambda>r. r_company_size r = sz) (rows df)"
    by simp
  then show ?thesis
    by (simp add: size_filter_def and_then_def column_def bool_index_map del: map_map)
qed

lemma apply_step_Inr:
  "apply_step other q s df = Inr out \<longleftrightarrow>
     step_ok other q (columns df) s \<and>
     out = df\<lparr>rows := filter (step_keeps other q s) (rows df)\<rparr>"
proof (cases s)
  case Search
  then show ?thesis
    by (auto simp: search_filter_eq step_ok_def step_keeps_def split: option.splits)
next
  case Evidence
  then show ?thesis
    by (auto simp: evidence_filter_eq step_ok_def step_keeps_def)
next
  case Size
  then show ?thesis
    by (auto simp: size_filter_eq step_ok_def step_keeps_def)
qed

lemma apply_steps_Inr:
  "apply_steps other q ss df = Inr out \<longleftrightarrow>
     (\<forall>s \<in> set ss. step_ok other q (columns df) s) \<and>
     out = df\<lparr>rows := filter (\<lambda>r. \<forall>s \<in> set ss. step_keeps other q s r) (rows df)\<rparr>"
proof (induction ss arbitrary: df)
  case Nil
  show ?case by auto
next
  case (Cons s ss)
  show ?case
  proof (cases "apply_step other q s df")
    case (Inl e)
    then have "\<not> step_ok other q (columns df) s"
      using apply_step_Inr[of other q s df] by auto
    with Inl show ?thesis by (simp add: and_then_def)
  next
    case (Inr d1)
    then have ok: "step_ok other q (columns df) s"
      and d1: "d1 = df\<lparr>rows := filter (step_keeps other q s) (rows df)\<rparr>"
      using apply_step_Inr[of other q s df d1] by auto
    have "apply_steps other q (s # ss) df = apply_steps other q ss d1"
      using Inr by (simp add: and_then_def)
    then show ?thesis
      using ok d1 Cons.IH[of d1] by (auto simp: conj_commute cong: filter_cong)
  qed
qed

lemma apply_filters_steps:
  "apply_filters other q df = apply_steps other q [Search, Evidence, Size] df"
  by (simp add: apply_filters_def and_then_def split: sum.splits)

lemma apply_filters_Inr:
  "apply_filters other q df = Inr out \<longleftrightarrow>
     (\<forall>s \<in> {Search, Evidence, Size}. step_ok other q (columns df) s) \<and>
     out = df\<lparr>rows :=
       filter (\<lambda>r. \<forall>s \<in> {Search, Evidence, Size}. step_keeps other q s r) (rows df)\<rparr>"
  using apply_steps_Inr[of other q "[Search, Evidence, Size]" df out]
  by (simp add: apply_filters_steps)

text \<open>
  Claim C7. The three narrowing statements commute: run in any order \<open>ss\<close> of the three, on
  any frame and any query, they give a filtered frame exactly when the order of the source
  gives one, and then the same frame. (When one statement raises, every order raises; the
  exception can name another column.)
\<close>

theorem filters_commute:
  assumes "set ss = {Search, Evidence, Size}"
  shows "(apply_steps other q ss df = Inr out) = (apply_filters other q df = Inr out)"
  using assms by (simp only: apply_steps_Inr apply_filters_Inr)

theorem filters_commute_witness:
  "apply_filters no_engine startup_query (extract_dataframe example_doc) =
     Inr ((extract_dataframe example_doc)\<lparr>rows := [project_row alice]\<rparr>) \<and>
   apply_steps no_engine startup_query [Size, Search, Evidence] (extract_dataframe example_doc) =
     Inr ((extract_dataframe example_doc)\<lparr>rows := [project_row alice]\<rparr>)"
proof -
  have s: "set [Size, Search, Evidence] = {Search, Evidence, Size}" by auto
  have a: "apply_filters no_engine startup_query (extract_dataframe example_doc) =
      Inr ((extract_dataframe example_doc)\<lparr>rows := [project_row alice]\<rparr>)"
    by code_simp
  from a filters_commute[OF s, of no_engine startup_query "extract_dataframe example_doc"
      "(extract_dataframe example_doc)\<lparr>rows := [project_row alice]\<rparr>"]
  show ?thesis by simp
qed

section \<open>The filter engine: narrowing and the identity query\<close>

lemma step_ok_identity:
  "rs \<noteq> [] \<Longrightarrow> step_ok other identity_query (columns (DataFrame rs)) s"
  by (cases s) (simp_all add: step_ok_def identity_query_def columns_DataFrame row_keys_def)

lemma step_keeps_identity:
  "(step_keeps other identity_query Search r \<and> step_keeps other identity_query Evidence r \<and>
    step_keeps other identity_query Size r) = (0 \<le> r_evidence_count r)"
  by (simp add: step_keeps_def identity_query_def)

lemma apply_filters_identity:
  assumes "rs \<noteq> []"
  shows "apply_filters other identity_query (DataFrame rs) =
     Inr ((DataFrame rs)\<lparr>rows := filter (\<lambda>r. 0 \<le> r_evidence_count r) rs\<rparr>)"
  using assms
  by (simp add: apply_filters_Inr step_ok_identity step_keeps_identity rows_DataFrame)

text \<open>
  Claim C3, amended. Whenever the filter gives a frame, that frame has the columns of the
  input and its rows are a subsequence of the input rows. On a non-empty row sequence the
  identity query gives the rows whose \<open>evidence_count\<close> is at least 0, the slider's
  threshold; so it gives the input unchanged when no \<open>evidence_count\<close> is negative.
\<close>

theorem filter_narrows:
  "(apply_filters other q (DataFrame rs) = Inr out \<longrightarrow>
      columns out = columns (DataFrame rs) \<and> subseq (rows out) rs \<and> set (rows out) \<subseteq> set rs) \<and>
   (rs \<noteq> [] \<longrightarrow>
      apply_filters other identity_query (DataFrame rs) =
        Inr ((DataFrame rs)\<lparr>rows := filter (\<lambda>r. 0 \<le> r_evidence_count r) rs\<rparr>)) \<and>
   (rs \<noteq> [] \<and> (\<forall>r \<in> set rs. 0 \<le> r_evidence_count r) \<longrightarrow>
      apply_filters other identity_query (DataFrame rs) = Inr (DataFrame rs))"
proof (intro conjI impI)
  assume "apply_filters other q (DataFrame rs) = Inr out"
  then have out: "out = (DataFrame rs)\<lparr>rows :=
      filter (\<lambda>r. \<forall>s \<in> {Search, Evidence, Size}. step_keeps other q s r) rs\<rparr>"
    by (simp add: apply_filters_Inr rows_DataFrame)
  show "columns out = columns (DataFrame rs)" by (simp add: out)
  show "subseq (rows out) rs" by (simp add: out)
  show "set (rows out) \<subseteq> set rs" by (auto simp: out)
next
  assume "rs \<noteq> []"
  then show "apply_filters other identity_query (DataFrame rs) =
      Inr ((DataFrame rs)\<lparr>rows := filter (\<lambda>r. 0 \<le> r_evidence_count r) rs\<rparr>)"
    by (rule apply_filters_identity)
next
  assume a: "rs \<noteq> [] \<and> (\<forall>r \<in> set rs. 0 \<le> r_evidence_count r)"
  then have "filter (\<lambda>r. 0 \<le> r_evidence_count r) rs = rs" by simp
  moreover have "(DataFrame rs)\<lparr>rows := rs\<rparr> = DataFrame rs" by (simp add: DataFrame_def)
  ultimately show "apply_filters other identity_query (DataFrame rs) = Inr (DataFrame rs)"
    using a by (simp add: apply_filters_identity)
qed

theorem filter_narrows_witness:
  "apply_filters no_engine identity_query (DataFrame [project_row alice, project_row nameless]) =
     Inr (DataFrame [project_row alice, project_row nameless]) \<and>
   apply_filters no_engine startup_query (DataFrame [project_row alice, project_row nameless]) =
     Inr ((DataFrame [project_row alice, project_row nameless])\<lparr>rows := [project_row alice]\<rparr>) \<and>
   subseq [project_row alice] [project_row alice, project_row nameless]"
proof -
  let ?rs = "[project_row alice, project_row nameless]"
  let ?out = "(DataFrame ?rs)\<lparr>rows := [project_row alice]\<rparr>"
  note t = filter_narrows[of no_engine startup_query ?rs ?out]
  have h: "?rs \<noteq> [] \<and> (\<forall>r \<in> set ?rs. 0 \<le> r_evidence_count r)"
    by code_simp
  have i: "apply_filters no_engine identity_query (DataFrame ?rs) = Inr (DataFrame ?rs)"
    using t[THEN conjunct2, THEN conjunct2, rule_format, OF h] .
  have a: "apply_filters no_engine startup_query (DataFrame ?rs) = Inr ?out"
    by code_simp
  have "subseq (rows ?out) ?rs"
    using t[THEN conjunct1, rule_format, OF a] by simp
  then have "subseq [project_row alice] ?rs" by simp
  with i a show ?thesis by simp
qed

text \<open>
  The claim as stated fails: a row with a negative \<open>evidence_count\<close> does not pass the
  identity query.
\<close>

theorem identity_query_counterexample:
  "r_evidence_count (project_row debtor) = - 1 \<and>
   apply_filters no_engine identity_query (DataFrame [project_row alice, project_row debtor]) =
     Inr ((DataFrame [project_row alice, project_row debtor])\<lparr>rows := [project_row alice]\<rparr>) \<and>
   apply_filters no_engine identity_query (DataFrame [project_row alice, project_row debtor]) \<noteq>
     Inr (DataFrame [project_row alice, project_row debtor])"
  by code_simp

text \<open>
  The frame of a document without profiles has no column, and on it the threshold
  statement raises \<^verbatim>\<open>KeyError\<close>, whatever the query.
\<close>

lemma no_profiles_KeyError:
  "apply_filters other q (extract_dataframe \<lparr>profiles = Some []\<rparr>) =
     Inl (KeyError (if search_query q = [] then ''evidence_count'' else ''username''))"
  by (simp add: apply_filters_def search_filter_eq evidence_filter_eq and_then_def
      columns_extract_dataframe dict_get_def)

section \<open>The filter engine: the filtered profiles\<close>

lemma np_contains_iff: "np_contains vs x \<longleftrightarrow> x \<in> set vs"
  by (induction vs) auto

lemma apply_filters_extract_columns:
  assumes "apply_filters other q (extract_dataframe data) = Inr fdf"
  shows "columns fdf = row_keys"
proof -
  have ok: "step_ok other q (columns (extract_dataframe data)) Evidence"
    and c: "columns fdf = columns (extract_dataframe data)"
    using assms by (simp_all add: apply_filters_Inr)
  from ok have "dict_get (profiles data) [] \<noteq> []"
    by (auto simp: step_ok_def columns_extract_dataframe)
  then show ?thesis by (simp add: c columns_extract_dataframe)
qed

lemma filtered_profiles_eq:
  assumes "''username'' \<in> set (columns fdf)"
  shows "filtered_profiles ps fdf =
     Inr [p \<leftarrow> ps. \<exists>r \<in> set (rows fdf). username p = Some (r_username r)]"
proof -
  have h: "np_contains (map Some (map r_username (rows fdf))) (username p) =
      (\<exists>r \<in> set (rows fdf). username p = Some (r_username r))" for p
    by (auto simp: np_contains_iff)
  show ?thesis
    using assms by (simp add: filtered_profiles_def column_def and_then_def h del: map_map)
qed

lemma apply_filters_no_columns:
  assumes "dict_get (profiles data) [] = []"
  shows "apply_filters other q (extract_dataframe data) \<noteq> Inr fdf"
  using assms by (simp add: apply_filters_Inr step_ok_def columns_extract_dataframe)

lemma filter_view_Inr:
  "filter_view other q data = Inr x \<longleftrightarrow>
     and_then (apply_filters other q (extract_dataframe data)) (\<lambda>fdf.
       and_then (filtered_profiles (dict_get (profiles data) []) fdf) (\<lambda>fps. Inr (fdf, fps))) =
     Inr x"
proof (cases "dict_get (profiles data) [] = []")
  case True
  then have n: "apply_filters other q (extract_dataframe data) \<noteq> Inr fdf" for fdf
    by (rule apply_filters_no_columns)
  obtain e where "apply_filters other q (extract_dataframe data) = Inl e"
    using n by (cases "apply_filters other q (extract_dataframe data)") auto
  then have r: "and_then (apply_filters other q (extract_dataframe data)) f \<noteq> Inr x" for f
    by (simp add: and_then_def)
  have "filter_view other q data \<noteq> Inr x"
    using True by (simp add: filter_view_def Let_def column_def columns_extract_dataframe
        and_then_def)
  with r show ?thesis by simp
next
  case False
  then show ?thesis
    by (simp add: filter_view_def Let_def column_def columns_extract_dataframe and_then_def
        row_keys_def)
qed

text \<open>
  On a document without profiles the page stops at line 113 with \<^verbatim>\<open>KeyError\<close>: the
  empty frame has no column \<^verbatim>\<open>company_size\<close>.
\<close>

lemma no_profiles_filter_view:
  "filter_view other q \<lparr>profiles = Some []\<rparr> = Inl (KeyError ''company_size'') \<and>
   filter_view other q \<lparr>profiles = None\<rparr> = Inl (KeyError ''company_size'')"
  by (simp add: filter_view_def Let_def column_def columns_extract_dataframe and_then_def
      dict_get_def)

text \<open>
  Claim C5. For every document and query, the filter returns a frame and a profile list
  exactly when the three statements give that frame and the list is, in input order, every
  profile of the document whose \<open>username\<close> is the \<open>username\<close> of some filtered row. Nothing
  is deduplicated: each profile that shares a matched username is in the list.
\<close>

theorem filtered_profiles_by_username:
  "filter_view other q data = Inr (fdf, fps) \<longleftrightarrow>
     apply_filters other q (extract_dataframe data) = Inr fdf \<and>
     fps = [p \<leftarrow> dict_get (profiles data) [].
              \<exists>r \<in> set (rows fdf). username p = Some (r_username r)]"
proof (cases "apply_filters other q (extract_dataframe data)")
  case (Inl e)
  then show ?thesis by (simp add: filter_view_Inr and_then_def)
next
  case (Inr d)
  then have "''username'' \<in> set (columns d)"
    using apply_filters_extract_columns[of other q data d] by (simp add: row_keys_def)
  then show ?thesis
    using Inr by (auto simp: filter_view_Inr and_then_def filtered_profiles_eq)
qed

theorem filtered_profiles_by_username_witness:
  "filter_view no_engine (identity_query\<lparr>min_evidence := 4\<rparr>) twin_doc =
     Inr ((extract_dataframe twin_doc)\<lparr>rows := [project_row alice, project_row bob]\<rparr>,
          [alice, bob, alice_twin])"
proof -
  let ?q = "identity_query\<lparr>min_evidence := 4\<rparr>"
  let ?fdf = "(extract_dataframe twin_doc)\<lparr>rows := [project_row alice, project_row bob]\<rparr>"
  have a: "apply_filters no_engine ?q (extract_dataframe twin_doc) = Inr ?fdf"
    by code_simp
  have b: "[alice, bob, alice_twin] =
      [p \<leftarrow> dict_get (profiles twin_doc) [].
         \<exists>r \<in> set (rows ?fdf). username p = Some (r_username r)]"
    by code_simp
  show ?thesis
    using filtered_profiles_by_username[of no_engine ?q twin_doc ?fdf "[alice, bob, alice_twin]"]
      a b by blast
qed

text \<open>
  Claim C9, amended. In a document that holds a profile without the \<open>username\<close> key, whose
  \<open>evidence_count\<close> is absent or not negative, the identity query keeps the row of that
  profile, with the empty string as its \<open>username\<close>, and leaves the profile itself out of
  the filtered profiles.
\<close>

theorem missing_username_row_without_profile:
  assumes "p \<in> set (dict_get (profiles data) [])"
    and "username p = None"
    and "0 \<le> dict_get (evidence_count p) 0"
  shows "\<exists>fdf fps. filter_view other identity_query data = Inr (fdf, fps) \<and>
           project_row p \<in> set (rows fdf) \<and> r_username (project_row p) = [] \<and> p \<notin> set fps"
proof -
  let ?ps = "dict_get (profiles data) []"
  let ?rs = "map project_row ?ps"
  let ?fdf = "(DataFrame ?rs)\<lparr>rows := filter (\<lambda>r. 0 \<le> r_evidence_count r) ?rs\<rparr>"
  let ?fps = "[p \<leftarrow> ?ps. \<exists>r \<in> set (rows ?fdf). username p = Some (r_username r)]"
  have ne: "?rs \<noteq> []" using assms(1) by auto
  have df: "extract_dataframe data = DataFrame ?rs"
    by (simp add: extract_dataframe_def append_rows_map Let_def)
  have f: "apply_filters other identity_query (extract_dataframe data) = Inr ?fdf"
    by (simp only: df apply_filters_identity[OF ne])
  have "''username'' \<in> set (columns ?fdf)"
    using ne by (simp add: columns_DataFrame row_keys_def)
  then have "filter_view other identity_query data = Inr (?fdf, ?fps)"
    using f by (simp add: filter_view_Inr and_then_def filtered_profiles_eq)
  moreover have "project_row p \<in> set (rows ?fdf)"
    using assms(1,3) by (auto simp: project_row_def)
  moreover have "r_username (project_row p) = []"
    using assms(2) by (simp add: project_row_def dict_get_def)
  moreover have "p \<notin> set ?fps"
    using assms(2) by simp
  ultimately show ?thesis by blast
qed

theorem missing_username_row_without_profile_witness:
  "\<exists>fdf fps. filter_view no_engine identity_query example_doc = Inr (fdf, fps) \<and>
     project_row nameless \<in> set (rows fdf) \<and> r_username (project_row nameless) = [] \<and>
     nameless \<notin> set fps"
proof -
  have m: "nameless \<in> set (dict_get (profiles example_doc) [])"
    by (simp add: example_doc_def dict_get_def)
  have u: "username nameless = None"
    by (simp add: nameless_def empty_profile_def)
  have c: "0 \<le> dict_get (evidence_count nameless) 0"
    by (simp add: nameless_def empty_profile_def dict_get_def)
  show ?thesis
    by (rule missing_username_row_without_profile[OF m u c])
qed

text \<open>
  The claim as stated fails: a profile without \<open>username\<close> and with a negative
  \<open>evidence_count\<close> loses its row under the identity query.
\<close>

theorem missing_username_counterexample:
  "debtor \<in> set (dict_get (profiles debtor_doc) []) \<and> username debtor = None \<and>
   filter_view no_engine identity_query debtor_doc =
     Inr ((extract_dataframe debtor_doc)\<lparr>rows := [project_row alice]\<rparr>, [alice]) \<and>
   project_row debtor \<notin> set [project_row alice]"
  by code_simp

section \<open>The filter engine: the search text\<close>








section \<open>The sort engine\<close>

lemma insort_key_map:
  "insort_key f (g x) (map g xs) = map g (insort_key (\<lambda>a. f (g a)) x xs)"
  by (induction xs) simp_all

lemma sort_key_map: "sort_key f (map g xs) = map g (sort_key (\<lambda>a. f (g a)) xs)"
  by (induction xs) (simp_all add: insort_key_map)

lemma list_sort_map:
  "list_sort f b (map g xs) = map g (list_sort (\<lambda>a. f (g a)) b xs)"
  by (simp add: list_sort_def sort_key_map rev_map)

lemma list_sort_stable:
  "filter (\<lambda>y. f y = k) (list_sort f b xs) = filter (\<lambda>y. f y = k) xs"
proof (cases b)
  case True
  have "filter (\<lambda>y. f y = k) (rev (sort_key f (rev xs))) =
      rev (filter (\<lambda>y. f y = k) (sort_key f (rev xs)))"
    by (simp add: rev_filter)
  also have "\<dots> = rev (filter (\<lambda>y. f y = k) (rev xs))"
    by (simp only: sort_key_stable)
  also have "\<dots> = filter (\<lambda>y. f y = k) xs"
    by (simp add: rev_filter)
  finally show ?thesis using True by (simp add: list_sort_def)
next
  case False
  then show ?thesis by (simp add: list_sort_def sort_key_stable)
qed

lemma sorted_list_sort: "sorted (map f (list_sort f False xs))"
  by (simp add: list_sort_def)

lemma sorted_list_sort_reverse: "sorted (rev (map f (list_sort f True xs)))"
  by (simp add: list_sort_def rev_map)

text \<open>
  Claim C6. Each of the four sort options is stable: the profiles that share a value of
  the sort key stand in the sorted list in the order they had in the input. The keys are
  \<open>evidence_count\<close> (0 when absent) for the two evidence options, the lower-cased
  \<open>username\<close> for \<^verbatim>\<open>Username (A-Z)\<close>, and \<open>latest_evidence_date\<close> for \<^verbatim>\<open>Latest Activity\<close>.
\<close>

theorem sort_profiles_stable:
  "filter (\<lambda>p. dict_get (evidence_count p) 0 = n)
       (sort_profiles ''Evidence Count (High to Low)'' ps) =
     filter (\<lambda>p. dict_get (evidence_count p) 0 = n) ps \<and>
   filter (\<lambda>p. dict_get (evidence_count p) 0 = n)
       (sort_profiles ''Evidence Count (Low to High)'' ps) =
     filter (\<lambda>p. dict_get (evidence_count p) 0 = n) ps \<and>
   filter (\<lambda>p. lower (dict_get (username p) []) = u) (sort_profiles ''Username (A-Z)'' ps) =
     filter (\<lambda>p. lower (dict_get (username p) []) = u) ps \<and>
   filter (\<lambda>p. dict_get (latest_evidence_date p) [] = d) (sort_profiles ''Latest Activity'' ps) =
     filter (\<lambda>p. dict_get (latest_evidence_date p) [] = d) ps"
  by (simp add: sort_profiles_def list_sort_stable)

theorem sort_profiles_stable_witness:
  "sort_profiles ''Evidence Count (High to Low)'' [counted ''a'' 5, counted ''b'' 5, counted ''c'' 3] =
     [counted ''a'' 5, counted ''b'' 5, counted ''c'' 3] \<and>
   sort_profiles ''Evidence Count (Low to High)'' [counted ''a'' 5, counted ''b'' 5, counted ''c'' 3] =
     [counted ''c'' 3, counted ''a'' 5, counted ''b'' 5] \<and>
   filter (\<lambda>p. dict_get (evidence_count p) 0 = 5)
       (sort_profiles ''Evidence Count (High to Low)''
          [counted ''a'' 5, counted ''b'' 5, counted ''c'' 3]) =
     [counted ''a'' 5, counted ''b'' 5]"
proof -
  let ?ps = "[counted ''a'' 5, counted ''b'' 5, counted ''c'' 3]"
  have h: "sort_profiles ''Evidence Count (High to Low)'' ?ps = ?ps"
    by code_simp
  have l: "sort_profiles ''Evidence Count (Low to High)'' ?ps =
      [counted ''c'' 3, counted ''a'' 5, counted ''b'' 5]"
    by code_simp
  have f: "filter (\<lambda>p. dict_get (evidence_count p) 0 = 5) ?ps =
      [counted ''a'' 5, counted ''b'' 5]"
    by code_simp
  have "filter (\<lambda>p. dict_get (evidence_count p) 0 = 5)
      (sort_profiles ''Evidence Count (High to Low)'' ?ps) = [counted ''a'' 5, counted ''b'' 5]"
    using sort_profiles_stable[of 5 ?ps, THEN conjunct1] by (simp only: f)
  with h l show ?thesis by simp
qed

lemma with_defaults_keys:
  "dict_get (evidence_count (with_defaults p)) 0 = dict_get (evidence_count p) 0"
  "dict_get (username (with_defaults p)) [] = dict_get (username p) []"
  "dict_get (latest_evidence_date (with_defaults p)) [] = dict_get (latest_evidence_date p) []"
  by (simp_all add: with_defaults_def dict_get_def)

lemma sort_profiles_with_defaults:
  "sort_profiles opt (map with_defaults ps) = map with_defaults (sort_profiles opt ps)"
  by (simp add: sort_profiles_def list_sort_map with_defaults_keys)

lemma nameless_first:
  assumes "sort_profiles ''Username (A-Z)'' ps = xs @ q # ys"
    and "username q = Some u" and "u \<noteq> []" and "p \<in> set ys"
  shows "username p \<noteq> None"
proof
  assume n: "username p = None"
  let ?k = "\<lambda>x. lower (dict_get (username x) [])"
  have "sorted (map ?k (xs @ q # ys))"
    using assms(1) sorted_list_sort[of ?k ps] by (simp add: sort_profiles_def)
  then have "?k q \<le> ?k p"
    using assms(4) by (auto simp: sorted_append)
  moreover have "?k p = []" using n by (simp add: dict_get_def lower_def)
  moreover have "?k q \<noteq> []" using assms(2,3) by (simp add: dict_get_def lower_def)
  ultimately show False by simp
qed

text \<open>
  Claim C10. A profile that lacks the field of the sort key is ordered as if it held the
  default: writing the defaults (0 for \<open>evidence_count\<close>, the empty string for \<open>username\<close>
  and for \<open>latest_evidence_date\<close>) into the profiles and sorting gives the same arrangement
  as sorting and then writing the defaults. Under \<^verbatim>\<open>Username (A-Z)\<close> no profile without a
  username stands after a profile with a non-empty username.
\<close>

theorem missing_key_sorts_as_default:
  "sort_profiles opt (map with_defaults ps) = map with_defaults (sort_profiles opt ps) \<and>
   (sort_profiles ''Username (A-Z)'' ps = xs @ q # ys \<and> username q = Some u \<and> u \<noteq> [] \<longrightarrow>
      (\<forall>p \<in> set ys. username p \<noteq> None))"
  using sort_profiles_with_defaults nameless_first by blast

theorem missing_key_sorts_as_default_witness:
  "sort_profiles ''Username (A-Z)'' [bob, nameless, alice] = [nameless, alice, bob] \<and>
   sort_profiles ''Username (A-Z)'' (map with_defaults [bob, nameless, alice]) =
     map with_defaults [nameless, alice, bob] \<and>
   username nameless = None \<and> username alice = Some ''alice_dev'' \<and> username bob \<noteq> None"
proof -
  let ?ps = "[bob, nameless, alice]"
  note t = missing_key_sorts_as_default[of "''Username (A-Z)''" ?ps "[nameless]" alice "[bob]"
      "''alice_dev''"]
  have s: "sort_profiles ''Username (A-Z)'' ?ps = [nameless] @ alice # [bob]"
    by code_simp
  have a: "username alice = Some ''alice_dev''"
    by (simp add: alice_def empty_profile_def)
  have n: "username nameless = None"
    by (simp add: nameless_def empty_profile_def)
  have "\<forall>p \<in> set [bob]. username p \<noteq> None"
    using t[THEN conjunct2] s a by simp
  then have b: "username bob \<noteq> None" by simp
  have "sort_profiles ''Username (A-Z)'' (map with_defaults ?ps) =
      map with_defaults [nameless, alice, bob]"
    using t[THEN conjunct1] s by simp
  with s a n b show ?thesis by simp
qed

section \<open>The loader\<close>



section \<open>The timeline aggregator: what is collected and counted\<close>








section \<open>The timeline aggregator: digits\<close>












section \<open>The timeline aggregator: what \<open>strptime_ymd\<close> does with a strict date\<close>












section \<open>The timeline aggregator: the month labels\<close>














section \<open>The timeline aggregator: the month counts\<close>




end
